theory Spec2Isabelle
  imports Main "HOL-Library.AList"
begin

section \<open>Values, dictionaries and the store\<close>

text \<open>
  The module \<^verbatim>\<open>ploomber/env/EnvDict.py\<close> keeps two Python dictionaries inside every
  \<^verbatim>\<open>EnvDict\<close> object and mutates them in place. Dictionaries are therefore objects of an
  explicit store, named by addresses; a value that is a dictionary is a reference
  \<open>PRef a\<close>. Two objects that hold the same address share the dictionary.

  Keys are strings, as the keys of a YAML mapping and the segments of a flattened key
  are; numbers are integers.

  Paths follow \<^verbatim>\<open>pathlib.PurePosixPath\<close>: a root (\<^verbatim>\<open>''\<close>, \<^verbatim>\<open>'/'\<close> or \<^verbatim>\<open>'//'\<close>) and the
  list of the parts after it.
\<close>

type_synonym addr = nat

datatype path = Path string "string list"

datatype pyval =
    PNone
  | PBool bool
  | PInt int
  | PStr string
  | PPath path
  | PList "pyval list"
  | PRef addr

text \<open>A dictionary keeps its keys in insertion order: an association list.\<close>

type_synonym dict = "(string \<times> pyval) list"

text \<open>
  The store gives the dictionary at every address; \<open>fresh\<close> is the next address no
  object has been given yet. A reference always names a dictionary.
\<close>

record store =
  cells :: "addr \<Rightarrow> dict"
  fresh :: addr

datatype error =
    KeyError string
  | ValueError string
  | TypeError
  | AttributeError
  | IndexError
  | FileNotFoundError string
  | UnboundLocalError
  | CollaboratorError string

text \<open>
  \<^verbatim>\<open>d[k] = v\<close> on the dictionary at address \<open>a\<close>: an existing key keeps its place, a new
  key goes last (\<open>AList.update\<close>).
\<close>

definition store_setitem :: "store \<Rightarrow> addr \<Rightarrow> string \<Rightarrow> pyval \<Rightarrow> store" where
  "store_setitem s a k v = s\<lparr>cells := (cells s)(a := AList.update k v (cells s a))\<rparr>"

text \<open>
  \<^verbatim>\<open>obj[k]\<close> for a string key: a dictionary raises \<^verbatim>\<open>KeyError(k)\<close> on a missing key; no
  other value of the model can be subscripted with a string (\<^verbatim>\<open>TypeError\<close>).
\<close>

definition subscript :: "store \<Rightarrow> pyval \<Rightarrow> string \<Rightarrow> error + pyval" where
  "subscript s obj k =
     (case obj of
        PRef a \<Rightarrow> (case map_of (cells s a) k of
                     Some v \<Rightarrow> Inr v
                   | None \<Rightarrow> Inl (KeyError k))
      | _ \<Rightarrow> Inl TypeError)"

text \<open>
  \<^verbatim>\<open>obj.get(k)\<close>: a dictionary answers \<^verbatim>\<open>None\<close> for a missing key; the other values have no
  attribute \<^verbatim>\<open>get\<close> (\<^verbatim>\<open>AttributeError\<close>).
\<close>

definition get_method :: "store \<Rightarrow> pyval \<Rightarrow> string \<Rightarrow> error + pyval" where
  "get_method s obj k =
     (case obj of
        PRef a \<Rightarrow> Inr (case map_of (cells s a) k of Some v \<Rightarrow> v | None \<Rightarrow> PNone)
      | _ \<Rightarrow> Inl AttributeError)"

text \<open>\<^verbatim>\<open>obj[k] = v\<close> on a value: only a dictionary supports item assignment by a string.\<close>

definition assign_item :: "store \<Rightarrow> pyval \<Rightarrow> string \<Rightarrow> pyval \<Rightarrow> (error + unit) \<times> store" where
  "assign_item s obj k v =
     (case obj of
        PRef a \<Rightarrow> (Inr (), store_setitem s a k v)
      | _ \<Rightarrow> (Inl TypeError, s))"

section \<open>Strings\<close>

text \<open>\<^verbatim>\<open>sep.join(xs)\<close>.\<close>

fun join :: "string \<Rightarrow> string list \<Rightarrow> string" where
  "join sep [] = []"
| "join sep [x] = x"
| "join sep (x # y # ys) = x @ sep @ join sep (y # ys)"

text \<open>
  \<^verbatim>\<open>s.split('__')\<close>: the separator is searched from the left, occurrences do not overlap,
  and the result always has at least one element. \<open>split_dunder_from cur s\<close> carries
  the segment read so far.
\<close>

fun split_dunder_from :: "string \<Rightarrow> string \<Rightarrow> string list" where
  "split_dunder_from cur [] = [cur]"
| "split_dunder_from cur [c] = [cur @ [c]]"
| "split_dunder_from cur (c # d # cs) =
     (if c = CHR ''_'' \<and> d = CHR ''_''
      then cur # split_dunder_from [] cs
      else split_dunder_from (cur @ [c]) (d # cs))"

definition split_dunder :: "string \<Rightarrow> string list" where
  "split_dunder s = split_dunder_from [] s"

text \<open>\<^verbatim>\<open>s.split(c)\<close> for a separator of one character.\<close>

fun split_on :: "char \<Rightarrow> string \<Rightarrow> string list" where
  "split_on c [] = [[]]"
| "split_on c (x # xs) =
     (if x = c then [] # split_on c xs
      else (case split_on c xs of
              [] \<Rightarrow> [[x]]
            | p # ps \<Rightarrow> (x # p) # ps))"

section \<open>Paths\<close>

text \<open>
  \<^verbatim>\<open>Path(s)\<close> for a string: the root is \<^verbatim>\<open>'//'\<close> for exactly two leading slashes, \<^verbatim>\<open>'/'\<close>
  for any other number of them; empty parts and \<^verbatim>\<open>'.'\<close> parts are dropped.
\<close>

definition Path_of :: "string \<Rightarrow> path" where
  "Path_of s =
     Path (if take 2 s = ''//'' \<and> take 3 s \<noteq> ''///'' then ''//''
           else if take 1 s = ''/'' then ''/''
           else [])
          (filter (\<lambda>p. p \<noteq> [] \<and> p \<noteq> ''.'') (split_on (CHR ''/'') s))"

text \<open>\<^verbatim>\<open>p.parent\<close>: a path without parts is its own parent.\<close>

fun parent :: "path \<Rightarrow> path" where
  "parent (Path r ps) = (if ps = [] then Path r ps else Path r (butlast ps))"

text \<open>\<^verbatim>\<open>str(p)\<close>.\<close>

fun str_path :: "path \<Rightarrow> string" where
  "str_path (Path r ps) = (if r = [] \<and> ps = [] then ''.'' else r @ join ''/'' ps)"

text \<open>An argument that is a \<^verbatim>\<open>str\<close> or a \<^verbatim>\<open>pathlib.Path\<close>.\<close>

datatype pathlike = AsStr string | AsPath path

fun Path_from :: "pathlike \<Rightarrow> path" where
  "Path_from (AsStr s) = Path_of s"
| "Path_from (AsPath p) = p"

fun str_pathlike :: "pathlike \<Rightarrow> string" where
  "str_pathlike (AsStr s) = s"
| "str_pathlike (AsPath p) = str_path p"

section \<open>Raw data\<close>

text \<open>
  What a source holds before an \<^verbatim>\<open>EnvDict\<close> is built from it: a tree of mappings,
  sequences and scalars, as YAML loads it or as the caller passes it. The constructor
  only reads it, so it is a value. A mapping lists its items in order; its keys are
  distinct, as a Python dictionary's are, and every lookup goes through \<open>map_of\<close>.
\<close>

datatype raw =
    RNone
  | RBool bool
  | RInt int
  | RStr string
  | RPath path
  | RList "raw list"
  | RDict "(string \<times> raw) list"

type_synonym rdict = "(string \<times> raw) list"

text \<open>Python's truth value of an object.\<close>

fun truthy :: "raw \<Rightarrow> bool" where
  "truthy RNone = False"
| "truthy (RBool b) = b"
| "truthy (RInt i) = (i \<noteq> 0)"
| "truthy (RStr s) = (s \<noteq> [])"
| "truthy (RPath p) = True"
| "truthy (RList xs) = (xs \<noteq> [])"
| "truthy (RDict kvs) = (kvs \<noteq> [])"

text \<open>\<^verbatim>\<open>type(x).__name__\<close>.\<close>

fun type_name :: "raw \<Rightarrow> string" where
  "type_name RNone = ''NoneType''"
| "type_name (RBool b) = ''bool''"
| "type_name (RInt i) = ''int''"
| "type_name (RStr s) = ''str''"
| "type_name (RPath p) = ''PosixPath''"
| "type_name (RList xs) = ''list''"
| "type_name (RDict kvs) = ''dict''"

text \<open>\<^verbatim>\<open>{**a, **b}\<close>: the items of \<open>a\<close>, then those of \<open>b\<close> assigned one after the other.\<close>

definition dict_merge :: "rdict \<Rightarrow> rdict \<Rightarrow> rdict" where
  "dict_merge a b = foldl (\<lambda>d kv. AList.update (fst kv) (snd kv) d) a b"

text \<open>
  Building the objects of a raw tree in the store: every mapping becomes a new
  dictionary at the next unused address.
\<close>

fun store_val :: "raw \<Rightarrow> store \<Rightarrow> pyval \<times> store"
  and store_list :: "raw list \<Rightarrow> store \<Rightarrow> pyval list \<times> store"
  and store_items :: "(string \<times> raw) list \<Rightarrow> store \<Rightarrow> dict \<times> store" where
  "store_val RNone s = (PNone, s)"
| "store_val (RBool b) s = (PBool b, s)"
| "store_val (RInt i) s = (PInt i, s)"
| "store_val (RStr x) s = (PStr x, s)"
| "store_val (RPath p) s = (PPath p, s)"
| "store_val (RList xs) s = (case store_list xs s of (vs, s') \<Rightarrow> (PList vs, s'))"
| "store_val (RDict kvs) s =
     (case store_items kvs s of
        (d, s') \<Rightarrow> (PRef (fresh s'),
                    s'\<lparr>cells := (cells s')(fresh s' := d), fresh := Suc (fresh s')\<rparr>))"
| "store_list [] s = ([], s)"
| "store_list (x # xs) s =
     (case store_val x s of
        (v, s1) \<Rightarrow> (case store_list xs s1 of (vs, s2) \<Rightarrow> (v # vs, s2)))"
| "store_items [] s = ([], s)"
| "store_items ((k, x) # kvs) s =
     (case store_val x s of
        (v, s1) \<Rightarrow> (case store_items kvs s1 of (d, s2) \<Rightarrow> ((k, v) # d, s2)))"

text \<open>A new dictionary object for a raw mapping; the result is its address.\<close>

definition store_dict :: "rdict \<Rightarrow> store \<Rightarrow> addr \<times> store" where
  "store_dict m s =
     (case store_items m s of
        (d, s') \<Rightarrow> (fresh s',
                    s'\<lparr>cells := (cells s')(fresh s' := d), fresh := Suc (fresh s')\<rparr>))"

section \<open>The EnvDict object\<close>

text \<open>
  An \<^verbatim>\<open>EnvDict\<close> binds its attributes once, in \<^verbatim>\<open>__init__\<close>, and never rebinds them, so an
  object is the record of its attribute values: \<^verbatim>\<open>_path_to_env\<close>, the addresses of the
  dictionaries \<^verbatim>\<open>_preprocessed\<close> and \<^verbatim>\<open>_data\<close>, and the expander \<^verbatim>\<open>_expander\<close>. The
  attribute \<^verbatim>\<open>_repr\<close> is a \<^verbatim>\<open>reprlib.Repr()\<close> with its default settings and carries no
  state of its own.
\<close>

record 'x EnvDict =
  path_to_env :: "path option"
  preprocessed :: addr
  expander :: 'x
  data :: addr

text \<open>
  What the module imports and this file does not define is a parameter of the model,
  one field per imported name. \<open>'x\<close> is the type of expander objects, \<open>'w\<close> the type of
  what \<^verbatim>\<open>FrozenJSON\<close> returns.
  \<^item> From \<^verbatim>\<open>ploomber.env.expand\<close>: the constructor \<^verbatim>\<open>EnvironmentExpander(preprocessed,
    path_to_here)\<close>, given the items of the preprocessed dictionary, and its methods
    \<^verbatim>\<open>expand_raw_dictionary\<close> and \<^verbatim>\<open>expand_raw_value\<close>.
  \<^item> From \<^verbatim>\<open>ploomber.env.FrozenJSON\<close>: \<^verbatim>\<open>FrozenJSON\<close>.
  \<^item> From \<^verbatim>\<open>ploomber.env.validate\<close>: \<^verbatim>\<open>raw_data_keys\<close>, which returns nothing or raises.
  \<^item> From \<^verbatim>\<open>ploomber.util.default\<close>: \<^verbatim>\<open>find_root_recursively\<close> and
    \<^verbatim>\<open>find_file_recursively\<close>.
  \<^item> From the standard library: the filesystem queries of \<^verbatim>\<open>pathlib.Path\<close> (\<^verbatim>\<open>exists\<close>,
    \<^verbatim>\<open>is_file\<close>, \<^verbatim>\<open>resolve\<close>), \<^verbatim>\<open>importlib.util.find_spec\<close> (it raises, finds nothing,
    or finds a module whose \<^verbatim>\<open>origin\<close> is a string or \<^verbatim>\<open>None\<close>), \<^verbatim>\<open>platform.node\<close>,
    \<^verbatim>\<open>Repr.repr_dict\<close>, and \<^verbatim>\<open>open\<close> followed by \<^verbatim>\<open>yaml.load\<close>.
\<close>

datatype yaml_outcome = OpenFailed error | ParseFailed | Loaded raw

record ('x, 'w) imported =
  EnvironmentExpander :: "rdict \<Rightarrow> path option \<Rightarrow> 'x"
  expand_raw_dictionary :: "'x \<Rightarrow> rdict \<Rightarrow> error + rdict"
  expand_raw_value :: "'x \<Rightarrow> pyval \<Rightarrow> string list \<Rightarrow> error + pyval"
  FrozenJSON :: "pyval \<Rightarrow> 'w"
  raw_data_keys :: "rdict \<Rightarrow> error option"
  find_root_recursively :: "path option"
  find_file_recursively :: "string \<Rightarrow> path option"
  Path_exists :: "path \<Rightarrow> bool"
  Path_is_file :: "path \<Rightarrow> bool"
  Path_resolve :: "path \<Rightarrow> path"
  find_spec :: "string \<Rightarrow> error + string option option"
  platform_node :: string
  repr_dict :: "store \<Rightarrow> addr \<Rightarrow> nat \<Rightarrow> string"
  open_yaml_load :: "path \<Rightarrow> yaml_outcome"

text \<open>
  \<^verbatim>\<open>copy(self)\<close> from the module \<^verbatim>\<open>copy\<close>: the class defines no \<^verbatim>\<open>__copy__\<close>, so the
  result is a new instance whose attributes are bound to the same values as the
  original's. No dictionary is copied.
\<close>

definition copy :: "'x EnvDict \<Rightarrow> 'x EnvDict" where
  "copy self =
     \<lparr>path_to_env = path_to_env self, preprocessed = preprocessed self,
      expander = expander self, data = data self\<rparr>"

text \<open>\<^verbatim>\<open>EnvDict._getitem\<close> (lines 149-153).\<close>

definition EnvDict_getitem ::
  "('x, 'w) imported \<Rightarrow> store \<Rightarrow> 'x EnvDict \<Rightarrow> string \<Rightarrow> error + 'w" where
  "EnvDict_getitem im s self key =
     (case map_of (cells s (preprocessed self)) key of
        Some v \<Rightarrow> Inr (FrozenJSON im v)
      | None \<Rightarrow>
          (case subscript s (PRef (data self)) key of
             Inl e \<Rightarrow> Inl e
           | Inr v \<Rightarrow> Inr (FrozenJSON im v)))"

text \<open>\<^verbatim>\<open>EnvDict.__repr__\<close> (lines 168-170).\<close>

definition EnvDict_dunder_repr :: "('x, 'w) imported \<Rightarrow> store \<Rightarrow> 'x EnvDict \<Rightarrow> string" where
  "EnvDict_dunder_repr im s self =
     (let content = repr_dict im s (data self) 2
      in ''EnvDict('' @ content @ '')'')"

text \<open>
  \<^verbatim>\<open>EnvDict.__getitem__\<close> (lines 139-147): a \<^verbatim>\<open>KeyError\<close> of \<^verbatim>\<open>_getitem\<close> is raised again
  with its argument replaced by the message; any other error passes through.
\<close>

definition EnvDict_dunder_getitem ::
  "('x, 'w) imported \<Rightarrow> store \<Rightarrow> 'x EnvDict \<Rightarrow> string \<Rightarrow> error + 'w" where
  "EnvDict_dunder_getitem im s self key =
     (case EnvDict_getitem im s self key of
        Inl (KeyError _) \<Rightarrow>
          Inl (KeyError (EnvDict_dunder_repr im s self @ '' object has no key '' @
                         [CHR 0x27] @ key @ [CHR 0x27]))
      | Inl e \<Rightarrow> Inl e
      | Inr v \<Rightarrow> Inr v)"


text \<open>\<^verbatim>\<open>EnvDict.__iter__\<close> (lines 158-160) and \<^verbatim>\<open>EnvDict.__len__\<close> (lines 162-163).\<close>

definition EnvDict_dunder_iter :: "store \<Rightarrow> 'x EnvDict \<Rightarrow> string list" where
  "EnvDict_dunder_iter s self = map fst (cells s (data self))"

definition EnvDict_dunder_len :: "store \<Rightarrow> 'x EnvDict \<Rightarrow> nat" where
  "EnvDict_dunder_len s self = length (cells s (data self))"

text \<open>
  The loop of \<^verbatim>\<open>_replace_value\<close> (lines 185-186):
  \<^verbatim>\<open>for e in keys_to_final_dict: dict_to_edit = dict_to_edit[e]\<close>.
\<close>

fun descend :: "store \<Rightarrow> pyval \<Rightarrow> string list \<Rightarrow> error + pyval" where
  "descend s dict_to_edit [] = Inr dict_to_edit"
| "descend s dict_to_edit (e # es) =
     (case subscript s dict_to_edit e of
        Inl err \<Rightarrow> Inl err
      | Inr d \<Rightarrow> descend s d es)"

text \<open>
  \<^verbatim>\<open>EnvDict._replace_value\<close> (lines 172-194). \<^verbatim>\<open>keys_all[-1]\<close> raises \<^verbatim>\<open>IndexError\<close> on an
  empty list; \<^verbatim>\<open>keys_all[:-1]\<close> is \<open>butlast\<close>.
\<close>

definition replace_error_message :: "string list \<Rightarrow> string" where
  "replace_error_message keys_all =
     (let dotted_path = join ''.'' keys_all
      in ''Trying to replace key '' @ [CHR 0x22] @ dotted_path @ [CHR 0x22] @
         '' in env, but it does not exist'')"

definition EnvDict_replace_value ::
  "('x, 'w) imported \<Rightarrow> store \<Rightarrow> 'x EnvDict \<Rightarrow> pyval \<Rightarrow> string list \<Rightarrow> (error + unit) \<times> store" where
  "EnvDict_replace_value im s self v keys_all =
     (if keys_all = [] then (Inl IndexError, s)
      else
        let keys_to_final_dict = butlast keys_all;
            key_to_edit = last keys_all
        in case descend s (PRef (data self)) keys_to_final_dict of
             Inl err \<Rightarrow> (Inl err, s)
           | Inr dict_to_edit \<Rightarrow>
               (case get_method s dict_to_edit key_to_edit of
                  Inl err \<Rightarrow> (Inl err, s)
                | Inr found \<Rightarrow>
                    if found = PNone
                    then (Inl (KeyError (replace_error_message keys_all)), s)
                    else (case expand_raw_value im (expander self) v keys_all of
                            Inl err \<Rightarrow> (Inl err, s)
                          | Inr expanded \<Rightarrow> assign_item s dict_to_edit key_to_edit expanded)))"

text \<open>
  \<^verbatim>\<open>EnvDict._inplace_replace_flatten_key\<close> (lines 196-216). \<^verbatim>\<open>parts[0]\<close> and
  \<^verbatim>\<open>parts[1:]\<close> are the head and the tail of the split.
\<close>

definition EnvDict_inplace_replace_flatten_key ::
  "('x, 'w) imported \<Rightarrow> store \<Rightarrow> 'x EnvDict \<Rightarrow> pyval \<Rightarrow> string \<Rightarrow> (error + unit) \<times> store" where
  "EnvDict_inplace_replace_flatten_key im s self v key_flatten =
     (case split_dunder key_flatten of
        [] \<Rightarrow> (Inl IndexError, s)
      | p0 # keys_all \<Rightarrow>
          if p0 = ''env''
          then EnvDict_replace_value im s self v keys_all
          else (Inl (ValueError ''keys_flatten must start with env__''), s))"

text \<open>\<^verbatim>\<open>EnvDict._replace_flatten_key\<close> (lines 218-221).\<close>

definition EnvDict_replace_flatten_key ::
  "('x, 'w) imported \<Rightarrow> store \<Rightarrow> 'x EnvDict \<Rightarrow> pyval \<Rightarrow> string \<Rightarrow> (error + 'x EnvDict) \<times> store" where
  "EnvDict_replace_flatten_key im s self v key_flatten =
     (let obj = copy self
      in case EnvDict_inplace_replace_flatten_key im s obj v key_flatten of
           (Inl err, s') \<Rightarrow> (Inl err, s')
         | (Inr _, s') \<Rightarrow> (Inr obj, s'))"

text \<open>
  \<^verbatim>\<open>EnvDict._inplace_replace_flatten_keys\<close> (lines 223-229): the entries of
  \<^verbatim>\<open>to_replace\<close> in their order; the first error ends the loop.
\<close>

fun EnvDict_inplace_replace_flatten_keys ::
  "('x, 'w) imported \<Rightarrow> store \<Rightarrow> 'x EnvDict \<Rightarrow> (string \<times> pyval) list \<Rightarrow> (error + unit) \<times> store" where
  "EnvDict_inplace_replace_flatten_keys im s self [] = (Inr (), s)"
| "EnvDict_inplace_replace_flatten_keys im s self ((key, v) # to_replace) =
     (case EnvDict_inplace_replace_flatten_key im s self v key of
        (Inl err, s') \<Rightarrow> (Inl err, s')
      | (Inr _, s') \<Rightarrow> EnvDict_inplace_replace_flatten_keys im s' self to_replace)"

text \<open>\<^verbatim>\<open>EnvDict._replace_flatten_keys\<close> (lines 231-234).\<close>

definition EnvDict_replace_flatten_keys ::
  "('x, 'w) imported \<Rightarrow> store \<Rightarrow> 'x EnvDict \<Rightarrow> (string \<times> pyval) list \<Rightarrow> (error + 'x EnvDict) \<times> store" where
  "EnvDict_replace_flatten_keys im s self to_replace =
     (let obj = copy self
      in case EnvDict_inplace_replace_flatten_keys im s obj to_replace of
           (Inl err, s') \<Rightarrow> (Inl err, s')
         | (Inr _, s') \<Rightarrow> (Inr obj, s'))"

section \<open>Preprocessing and loading\<close>

text \<open>
  The queries \<^verbatim>\<open>raw_preprocess\<close> makes to the filesystem and to the module finder, in
  the order it makes them.
\<close>

datatype event = Exists path | IsFile path | FindSpec string

text \<open>
  \<^verbatim>\<open>Path(module)\<close> accepts a string or a path and raises \<^verbatim>\<open>TypeError\<close> on any other
  value; \<^verbatim>\<open>'{}'.format(module)\<close> is used with those two kinds only.
\<close>

fun as_Path :: "raw \<Rightarrow> path option" where
  "as_Path (RStr s) = Some (Path_of s)"
| "as_Path (RPath p) = Some p"
| "as_Path _ = None"

fun format_module :: "raw \<Rightarrow> string" where
  "format_module (RStr s) = s"
| "format_module (RPath p) = str_path p"
| "format_module _ = []"

definition not_a_directory_message :: "raw \<Rightarrow> string" where
  "not_a_directory_message m =
     ''Could not resolve _module '' @ [CHR 0x22] @ format_module m @ [CHR 0x22] @
     '', expected a module or a directory but got a file''"

definition not_a_module_message :: "raw \<Rightarrow> string" where
  "not_a_module_message m =
     ''Could not resolve _module '' @ [CHR 0x22] @ format_module m @ [CHR 0x22] @
     '', it is not a valid module nor a directory''"

text \<open>
  The last branch of \<^verbatim>\<open>raw_preprocess\<close> (lines 353-362):
  \<^verbatim>\<open>importlib.util.find_spec(module)\<close> starts with \<^verbatim>\<open>module.startswith\<close>, which a path
  does not have; \<^verbatim>\<open>Path(module_spec.origin)\<close> raises \<^verbatim>\<open>TypeError\<close> on \<^verbatim>\<open>None\<close>.
\<close>

definition resolve_dotted ::
  "('x, 'w) imported \<Rightarrow> raw \<Rightarrow> path \<Rightarrow> (error + rdict) \<times> event list" where
  "resolve_dotted im m as_path =
     (case m of
        RStr name \<Rightarrow>
          (case find_spec im name of
             Inl err \<Rightarrow> (Inl err, [Exists as_path, FindSpec name])
           | Inr None \<Rightarrow>
               (Inl (ValueError (not_a_module_message m)), [Exists as_path, FindSpec name])
           | Inr (Some None) \<Rightarrow> (Inl TypeError, [Exists as_path, FindSpec name])
           | Inr (Some (Some origin)) \<Rightarrow>
               (Inr [(''_module'', RPath (parent (Path_of origin)))],
                [Exists as_path, FindSpec name]))
      | _ \<Rightarrow> (Inl AttributeError, [Exists as_path]))"

text \<open>
  \<^verbatim>\<open>raw_preprocess\<close> (lines 305-366). The result is the content of the dictionary
  \<^verbatim>\<open>preprocessed\<close>, with the list of the queries made.
\<close>

definition raw_preprocess ::
  "('x, 'w) imported \<Rightarrow> rdict \<Rightarrow> path option \<Rightarrow> (error + rdict) \<times> event list" where
  "raw_preprocess im rw path_to_raw =
     (let m = (case map_of rw ''_module'' of Some v \<Rightarrow> v | None \<Rightarrow> RNone)
      in if truthy m
         then
           (if m = RStr ''{{here}}''
            then
              (case path_to_raw of
                 Some p \<Rightarrow> (Inr [(''_module'', RPath (parent p))], [])
               | None \<Rightarrow>
                   (Inl (ValueError ''_module cannot be {{here}} if not loaded from a file''), []))
            else
              (case as_Path m of
                 None \<Rightarrow> (Inl TypeError, [])
               | Some as_path \<Rightarrow>
                   if Path_exists im as_path
                   then
                     (if Path_is_file im as_path
                      then (Inl (ValueError (not_a_directory_message m)),
                            [Exists as_path, IsFile as_path])
                      else (Inr [(''_module'', RPath as_path)],
                            [Exists as_path, IsFile as_path]))
                   else resolve_dotted im m as_path))
         else (Inr [], []))"

text \<open>\<^verbatim>\<open>find_env_w_name\<close> (lines 369-385).\<close>

definition find_env_w_name :: "('x, 'w) imported \<Rightarrow> string \<Rightarrow> path option" where
  "find_env_w_name im name =
     (case find_file_recursively im (''env.'' @ name @ ''.yaml'') of
        None \<Rightarrow> find_file_recursively im ''env.yaml''
      | Some p \<Rightarrow> Some p)"

text \<open>
  The end of \<^verbatim>\<open>load_from_source\<close> (lines 283-302), for the file that \<^verbatim>\<open>source\<close> names
  by then. When
  \<^verbatim>\<open>yaml.load\<close> raises, the \<^verbatim>\<open>finally\<close> clause reads the local \<^verbatim>\<open>raw\<close> before it was ever
  bound, and its \<^verbatim>\<open>UnboundLocalError\<close> replaces the error on its way out.
\<close>

definition not_a_dict_message :: "pathlike \<Rightarrow> raw \<Rightarrow> string" where
  "not_a_dict_message f r =
     ''Expected object loaded from '' @ [CHR 0x27] @ str_pathlike f @ [CHR 0x27] @
     '' to be a dict but got '' @ [CHR 0x27] @ type_name r @ [CHR 0x27] @
     '' instead, verify the content''"

definition load_file ::
  "('x, 'w) imported \<Rightarrow> pathlike \<Rightarrow> error + rdict \<times> path option" where
  "load_file im f =
     (case open_yaml_load im (Path_from f) of
        OpenFailed err \<Rightarrow> Inl err
      | ParseFailed \<Rightarrow> Inl UnboundLocalError
      | Loaded r \<Rightarrow>
          (case r of
             RDict m \<Rightarrow> Inr (m, Some (Path_resolve im (Path_from f)))
           | _ \<Rightarrow> Inl (ValueError (not_a_dict_message f r))))"

text \<open>
  \<^verbatim>\<open>load_from_source\<close> (lines 237-302). A source is a mapping, \<^verbatim>\<open>None\<close>, or a string or
  path naming a file.
\<close>

datatype source = SrcMapping rdict | SrcNone | SrcFile pathlike

definition load_from_source ::
  "('x, 'w) imported \<Rightarrow> source \<Rightarrow> error + rdict \<times> path option" where
  "load_from_source im src =
     (case src of
        SrcMapping m \<Rightarrow> Inr (m, None)
      | SrcNone \<Rightarrow>
          (let name = platform_node im
           in case find_env_w_name im name of
                None \<Rightarrow>
                  Inl (FileNotFoundError
                        (''Tried to initialize environment with None, but automatic '' @
                         ''file search failed to locate env.'' @ name @
                         ''.yaml nor env.yaml in the current directory nor 6 levels up''))
              | Some path_found \<Rightarrow> load_file im (AsPath path_found))
      | SrcFile f \<Rightarrow>
          if Path_exists im (Path_from f) then load_file im f
          else
            (case find_file_recursively im (str_pathlike f) of
               None \<Rightarrow>
                 Inl (FileNotFoundError
                       (''Could not find file '' @ [CHR 0x22] @ str_pathlike f @ [CHR 0x22] @
                        '' in the current working directory nor 6 levels up''))
             | Some source_found \<Rightarrow> load_file im (AsPath source_found)))"

section \<open>Construction\<close>

text \<open>\<^verbatim>\<open>EnvDict._default_dict\<close> (lines 96-109).\<close>

definition EnvDict_default_dict :: "('x, 'w) imported \<Rightarrow> bool \<Rightarrow> rdict" where
  "EnvDict_default_dict im include_here =
     (let placeholders = [(''user'', RStr ''{{user}}''), (''cwd'', RStr ''{{cwd}}'')];
          placeholders1 =
            (if find_root_recursively im = None then placeholders
             else AList.update ''root'' (RStr ''{{root}}'') placeholders);
          placeholders2 =
            (if include_here then AList.update ''here'' (RStr ''{{here}}'') placeholders1
             else placeholders1)
      in placeholders2)"

text \<open>
  The merge of lines 65-70: \<^verbatim>\<open>{**self._default_dict(include_here=path_to_here is not
  None), **raw_data}\<close>.
\<close>

definition merged_raw_data :: "('x, 'w) imported \<Rightarrow> rdict \<Rightarrow> pathlike option \<Rightarrow> rdict" where
  "merged_raw_data im raw_data path_to_here =
     dict_merge (EnvDict_default_dict im (path_to_here \<noteq> None)) raw_data"

text \<open>
  \<^verbatim>\<open>EnvDict.__init__\<close> (lines 42-94) for a source that is not itself an \<^verbatim>\<open>EnvDict\<close>. The
  dictionary \<^verbatim>\<open>_preprocessed\<close> is in the store as soon as \<^verbatim>\<open>raw_preprocess\<close> has returned
  it; \<^verbatim>\<open>_data\<close> is what \<^verbatim>\<open>expand_raw_dictionary\<close> returns, a new dictionary.
\<close>

definition EnvDict_init ::
  "('x, 'w) imported \<Rightarrow> store \<Rightarrow> source \<Rightarrow> pathlike option \<Rightarrow> (error + 'x EnvDict) \<times> store" where
  "EnvDict_init im s src path_to_here =
     (case load_from_source im src of
        Inl err \<Rightarrow> (Inl err, s)
      | Inr (raw_data0, path_to_env0) \<Rightarrow>
          (let raw_data = merged_raw_data im raw_data0 path_to_here
           in (case raw_data_keys im raw_data of
                 Some err \<Rightarrow> (Inl err, s)
               | None \<Rightarrow>
                   (case fst (raw_preprocess im raw_data path_to_env0) of
                      Inl err \<Rightarrow> (Inl err, s)
                    | Inr pre \<Rightarrow>
                        (case store_dict pre s of
                           (pre_addr, s1) \<Rightarrow>
                             (let here = (case path_to_here of
                                            None \<Rightarrow> map_option parent path_to_env0
                                          | Some h \<Rightarrow> Some (Path_resolve im (Path_from h)));
                                  x = EnvironmentExpander im pre here
                              in (case expand_raw_dictionary im x raw_data of
                                    Inl err \<Rightarrow> (Inl err, s1)
                                  | Inr expanded \<Rightarrow>
                                      (case store_dict expanded s1 of
                                         (data_addr, s2) \<Rightarrow>
                                           (Inr \<lparr>path_to_env = path_to_env0,
                                                 preprocessed = pre_addr,
                                                 expander = x,
                                                 data = data_addr\<rparr>, s2)))))))))"

text \<open>\<^verbatim>\<open>EnvDict.default\<close> (lines 111-120).\<close>

definition EnvDict_default ::
  "('x, 'w) imported \<Rightarrow> store \<Rightarrow> pathlike option \<Rightarrow> (error + 'x EnvDict) \<times> store" where
  "EnvDict_default im s path_to_here =
     (let placeholders = EnvDict_default_dict im (path_to_here \<noteq> None)
      in EnvDict_init im s (SrcMapping placeholders) path_to_here)"

section \<open>Example objects\<close>

text \<open>
  The mapping of the scenario \<^verbatim>\<open>{"a": {"b": 1}, "_module": "{{here}}"}\<close>.
\<close>

definition scenario_source :: rdict where
  "scenario_source = [(''a'', RDict [(''b'', RInt 1)]), (''_module'', RStr ''{{here}}'')]"

text \<open>
  One choice of the imported names, used to run the model: an expander that returns
  what it is given, a \<^verbatim>\<open>FrozenJSON\<close> that returns its argument, a validator that rejects
  the key \<^verbatim>\<open>bad__key\<close>, a filesystem with the directory \<^verbatim>\<open>src\<close>, the file \<^verbatim>\<open>setup.py\<close> and
  the file \<^verbatim>\<open>/proj/env.yaml\<close> (which holds the scenario's mapping), and a module finder
  that knows the package \<^verbatim>\<open>pkg\<close>.
\<close>

definition example_imported :: "(unit, pyval) imported" where
  "example_imported =
     \<lparr>EnvironmentExpander = (\<lambda>pre here. ()),
      expand_raw_dictionary = (\<lambda>x rw. Inr rw),
      expand_raw_value = (\<lambda>x v keys. Inr v),
      FrozenJSON = (\<lambda>v. v),
      raw_data_keys = (\<lambda>rw. if map_of rw ''bad__key'' = None then None
                         else Some (ValueError ''Error validating env.'')),
      find_root_recursively = None,
      find_file_recursively = (\<lambda>name. None),
      Path_exists = (\<lambda>p. p = Path [] [''src''] \<or> p = Path [] [''setup.py'']
                          \<or> p = Path ''/'' [''proj'', ''env.yaml'']),
      Path_is_file = (\<lambda>p. p = Path [] [''setup.py''] \<or> p = Path ''/'' [''proj'', ''env.yaml'']),
      Path_resolve = (\<lambda>p. p),
      find_spec = (\<lambda>name. if name = ''pkg'' then Inr (Some (Some ''/site/pkg/__init__.py''))
                           else Inr None),
      platform_node = ''host'',
      repr_dict = (\<lambda>s a n. ''{...}''),
      open_yaml_load =
        (\<lambda>p. if p = Path ''/'' [''proj'', ''env.yaml'']
             then Loaded (RDict scenario_source)
             else OpenFailed (FileNotFoundError []))\<rparr>"

text \<open>
  A store with an \<^verbatim>\<open>EnvDict\<close> whose \<^verbatim>\<open>_preprocessed\<close> is \<^verbatim>\<open>{"_module": Path("/proj")}\<close> and
  whose \<^verbatim>\<open>_data\<close> is \<^verbatim>\<open>{"a": {"b": 1}, "u": None}\<close>.
\<close>

definition example_store :: store where
  "example_store =
     \<lparr>cells = (\<lambda>a. [])(0 := [(''_module'', PPath (Path ''/'' [''proj'']))],
                         1 := [(''a'', PRef 2), (''u'', PNone)],
                         2 := [(''b'', PInt 1)]),
      fresh = 3\<rparr>"

definition example_env :: "unit EnvDict" where
  "example_env =
     \<lparr>path_to_env = Some (Path ''/'' [''proj'', ''env.yaml'']), preprocessed = 0,
      expander = (), data = 1\<rparr>"

section \<open>Facts about the helpers\<close>

lemma split_dunder_from_nonempty: "split_dunder_from cur s \<noteq> []"
  by (induction cur s rule: split_dunder_from.induct) auto

lemma split_dunder_nonempty: "split_dunder k \<noteq> []"
  by (simp add: split_dunder_def split_dunder_from_nonempty)

lemma map_of_foldl_update:
  "distinct (map fst b) \<Longrightarrow>
   map_of (foldl (\<lambda>d kv. AList.update (fst kv) (snd kv) d) a b) k =
     (case map_of b k of Some v \<Rightarrow> Some v | None \<Rightarrow> map_of a k)"
proof (induction b arbitrary: a)
  case Nil
  then show ?case by simp
next
  case (Cons kv b)
  obtain k' v' where kv: "kv = (k', v')" by (cases kv)
  from Cons.prems kv have absent: "map_of b k' = None" and rest: "distinct (map fst b)"
    by (auto simp: map_of_eq_None_iff)
  have "map_of (foldl (\<lambda>d kv. AList.update (fst kv) (snd kv) d) a (kv # b)) k =
        (case map_of b k of Some v \<Rightarrow> Some v | None \<Rightarrow> map_of (AList.update k' v' a) k)"
    using Cons.IH [OF rest, of "AList.update k' v' a"] by (simp add: kv)
  also have "\<dots> = (case map_of (kv # b) k of Some v \<Rightarrow> Some v | None \<Rightarrow> map_of a k)"
    using absent by (auto simp: kv update_conv' split: option.splits)
  finally show ?case .
qed

lemma map_of_dict_merge:
  "distinct (map fst b) \<Longrightarrow>
   map_of (dict_merge a b) k = (case map_of b k of Some v \<Rightarrow> Some v | None \<Rightarrow> map_of a k)"
  by (simp add: dict_merge_def map_of_foldl_update)

lemma default_dict_keys:
  "map fst (EnvDict_default_dict im include_here) =
     [''user'', ''cwd''] @ (if find_root_recursively im = None then [] else [''root''])
       @ (if include_here then [''here''] else [])"
  by (auto simp: EnvDict_default_dict_def Let_def)

lemma store_frame:
  "store_val x s = (v, s') \<Longrightarrow> fresh s \<le> fresh s' \<and> (\<forall>a<fresh s. cells s' a = cells s a)"
  "store_list xs s = (vs, s') \<Longrightarrow> fresh s \<le> fresh s' \<and> (\<forall>a<fresh s. cells s' a = cells s a)"
  "store_items kvs s = (d, s') \<Longrightarrow> fresh s \<le> fresh s' \<and> (\<forall>a<fresh s. cells s' a = cells s a)"
proof (induction x s and xs s and kvs s arbitrary: v s' and vs s' and d s'
       rule: store_val_store_list_store_items.induct)
  case (7 kvs s)
  then show ?case by (fastforce split: prod.splits)
next
  case (9 x xs s)
  then show ?case by (fastforce split: prod.splits)
next
  case (11 k x kvs s)
  then show ?case by (fastforce split: prod.splits)
qed (auto split: prod.splits)

lemma store_items_keys: "store_items kvs s = (d, s') \<Longrightarrow> map fst d = map fst kvs"
proof (induction kvs arbitrary: s d s')
  case Nil
  then show ?case by simp
next
  case (Cons kv kvs)
  then show ?case by (cases kv) (auto split: prod.splits)
qed

lemma store_items_mapping:
  "store_items kvs s = (d, s') \<Longrightarrow> map_of kvs k = Some (RDict m) \<Longrightarrow>
   \<exists>a s0 d0 s1. map_of d k = Some (PRef a) \<and> a < fresh s'
                \<and> store_items m s0 = (d0, s1) \<and> cells s' a = d0"
proof (induction kvs arbitrary: s d s')
  case Nil
  then show ?case by simp
next
  case (Cons kv kvs)
  obtain k' x where kv: "kv = (k', x)" by (cases kv)
  obtain v sa where first: "store_val x s = (v, sa)" by (cases "store_val x s")
  obtain d' where rest: "store_items kvs sa = (d', s')" and d: "d = (k', v) # d'"
    using Cons.prems(1) first by (auto simp: kv split: prod.splits)
  show ?case
  proof (cases "k' = k")
    case True
    with Cons.prems(2) kv have x: "x = RDict m" by simp
    obtain d0 s1 where inner: "store_items m s = (d0, s1)" by (cases "store_items m s")
    from first x inner have v: "v = PRef (fresh s1)"
      and sa: "sa = s1\<lparr>cells := (cells s1)(fresh s1 := d0), fresh := Suc (fresh s1)\<rparr>"
      by auto
    from store_frame(3) [OF rest] sa have "fresh s1 < fresh s'" and "cells s' (fresh s1) = d0"
      by auto
    with True d v inner show ?thesis by auto
  next
    case False
    with Cons.prems(2) kv have "map_of kvs k = Some (RDict m)" by simp
    from Cons.IH [OF rest this] False d show ?thesis by auto
  qed
qed

lemma raw_preprocess_here:
  "map_of rw ''_module'' = Some (RStr ''{{here}}'') \<Longrightarrow>
   fst (raw_preprocess im rw path_to_raw) =
     (case path_to_raw of
        Some p \<Rightarrow> Inr [(''_module'', RPath (parent p))]
      | None \<Rightarrow> Inl (ValueError ''_module cannot be {{here}} if not loaded from a file''))"
  by (simp add: raw_preprocess_def split: option.splits)

lemma init_from_file:
  assumes loaded: "load_from_source im src = Inr (rw, Some p)"
      and valid: "raw_data_keys im (merged_raw_data im rw path_to_here) = None"
      and prep: "fst (raw_preprocess im (merged_raw_data im rw path_to_here) (Some p)) =
                   Inr [(''_module'', RPath q)]"
      and expd: "expand_raw_dictionary im
                   (EnvironmentExpander im [(''_module'', RPath q)]
                      (case path_to_here of
                         None \<Rightarrow> Some (parent p)
                       | Some h \<Rightarrow> Some (Path_resolve im (Path_from h))))
                   (merged_raw_data im rw path_to_here) = Inr expanded"
      and sub: "map_of expanded ''a'' = Some (RDict [(''b'', RInt 1)])"
  shows "\<exists>self s' a. EnvDict_init im s src path_to_here = (Inr self, s')
           \<and> EnvDict_dunder_getitem im s' self ''_module'' = Inr (FrozenJSON im (PPath q))
           \<and> EnvDict_dunder_getitem im s' self ''a'' = Inr (FrozenJSON im (PRef a))
           \<and> cells s' a = [(''b'', PInt 1)]"
proof -
  define s1 where "s1 = s\<lparr>cells := (cells s)(fresh s := [(''_module'', PPath q)]),
                          fresh := Suc (fresh s)\<rparr>"
  have sd1: "store_dict [(''_module'', RPath q)] s = (fresh s, s1)"
    by (simp add: store_dict_def s1_def)
  obtain d sx where items: "store_items expanded s1 = (d, sx)"
    by (cases "store_items expanded s1")
  define s2 where "s2 = sx\<lparr>cells := (cells sx)(fresh sx := d), fresh := Suc (fresh sx)\<rparr>"
  have sd2: "store_dict expanded s1 = (fresh sx, s2)"
    by (simp add: store_dict_def items s2_def)
  define self where
    "self = \<lparr>path_to_env = Some p, preprocessed = fresh s,
             expander = EnvironmentExpander im [(''_module'', RPath q)]
                          (case path_to_here of
                             None \<Rightarrow> Some (parent p)
                           | Some h \<Rightarrow> Some (Path_resolve im (Path_from h))),
             data = fresh sx\<rparr>"
  have here_eq:
    "(case path_to_here of
        None \<Rightarrow> map_option parent (Some p)
      | Some h \<Rightarrow> Some (Path_resolve im (Path_from h))) =
     (case path_to_here of
        None \<Rightarrow> Some (parent p)
      | Some h \<Rightarrow> Some (Path_resolve im (Path_from h)))"
    by (simp split: option.splits)
  have init: "EnvDict_init im s src path_to_here = (Inr self, s2)"
    by (simp add: EnvDict_init_def loaded valid prep sd1 sd2 self_def Let_def here_eq expd)
  from store_frame(3) [OF items]
  have grow: "fresh s1 \<le> fresh sx" and keep: "\<forall>a<fresh s1. cells sx a = cells s1 a"
    by auto
  have below: "fresh s < fresh sx" using grow by (simp add: s1_def)
  have pre_cell: "cells s2 (fresh s) = [(''_module'', PPath q)]"
    using keep below by (simp add: s2_def s1_def)
  have data_cell: "cells s2 (fresh sx) = d" by (simp add: s2_def)
  from store_items_mapping [OF items sub]
  obtain a s0 d0 s3 where a: "map_of d ''a'' = Some (PRef a)" and lt: "a < fresh sx"
    and inner: "store_items [(''b'', RInt 1)] s0 = (d0, s3)" and cell: "cells sx a = d0"
    by blast
  from inner have d0: "d0 = [(''b'', PInt 1)]" by auto
  have a_cell: "cells s2 a = [(''b'', PInt 1)]" using lt cell d0 by (simp add: s2_def)
  have m: "EnvDict_dunder_getitem im s2 self ''_module'' = Inr (FrozenJSON im (PPath q))"
    by (simp add: EnvDict_dunder_getitem_def EnvDict_getitem_def self_def pre_cell)
  have g: "EnvDict_dunder_getitem im s2 self ''a'' = Inr (FrozenJSON im (PRef a))"
    by (simp add: EnvDict_dunder_getitem_def EnvDict_getitem_def self_def pre_cell data_cell
        subscript_def a)
  from init m g a_cell show ?thesis by blast
qed

section \<open>Overrides\<close>

text \<open>
  Claim C1. Every override operation returns a new copy and leaves the receiver
  unchanged: after \<^verbatim>\<open>obj2 = obj1.replace_at_path(v, path)\<close>, \<^verbatim>\<open>obj1.get(path)\<close> still returns
  the value it returned before.

  The code does not keep this. \<^verbatim>\<open>_replace_flatten_key\<close> copies the object with
  \<^verbatim>\<open>copy(self)\<close>, so the copy's \<^verbatim>\<open>_data\<close> is the receiver's dictionary, and the replacement
  shows through the receiver. With \<^verbatim>\<open>_data = {"a": {"b": 1}, ...}\<close>: the receiver reads
  \<^verbatim>\<open>a.b\<close> as 1 before \<^verbatim>\<open>_replace_flatten_key(2, 'env__a__b')\<close> and as 2 after it (the
  same with \<^verbatim>\<open>_replace_flatten_keys({'env__a__b': 2})\<close>), and \<^verbatim>\<open>obj1['a']\<close> is 5 after
  \<^verbatim>\<open>obj1._replace_flatten_key(5, 'env__a')\<close>.
\<close>

theorem replace_flatten_key_changes_receiver:
  "descend example_store (PRef (data example_env)) [''a'', ''b''] = Inr (PInt 1)
   \<and> fst (EnvDict_replace_flatten_key example_imported example_store example_env (PInt 2)
            ''env__a__b'') = Inr example_env
   \<and> descend (snd (EnvDict_replace_flatten_key example_imported example_store example_env
                     (PInt 2) ''env__a__b''))
        (PRef (data example_env)) [''a'', ''b''] = Inr (PInt 2)
   \<and> descend (snd (EnvDict_replace_flatten_keys example_imported example_store example_env
                     [(''env__a__b'', PInt 2)]))
        (PRef (data example_env)) [''a'', ''b''] = Inr (PInt 2)
   \<and> EnvDict_dunder_getitem example_imported example_store example_env ''a'' = Inr (PRef 2)
   \<and> EnvDict_dunder_getitem example_imported
        (snd (EnvDict_replace_flatten_key example_imported example_store example_env
               (PInt 5) ''env__a''))
        example_env ''a'' = Inr (PInt 5)"
  by (simp add: EnvDict_replace_flatten_key_def EnvDict_replace_flatten_keys_def
      EnvDict_inplace_replace_flatten_key_def
      EnvDict_replace_value_def EnvDict_dunder_getitem_def EnvDict_getitem_def
      split_dunder_def copy_def subscript_def get_method_def assign_item_def
      store_setitem_def example_store_def example_env_def example_imported_def)

text \<open>
  Claim C2. For a non-empty key path, \<^verbatim>\<open>_replace_value\<close> fails with \<^verbatim>\<open>KeyError\<close> if and only
  if an intermediate key or the final key does not exist.

  The code tests the final key with \<^verbatim>\<open>dict_to_edit.get(key_to_edit) is None\<close>, which also
  holds for a key that exists and is bound to \<^verbatim>\<open>None\<close>: on \<^verbatim>\<open>_data = {..., "u": None}\<close>
  the call \<^verbatim>\<open>_replace_value(2, ['u'])\<close> raises the \<^verbatim>\<open>KeyError\<close> whose message says that the
  key does not exist.
\<close>

theorem replace_value_none_valued_key:
  "map_of (cells example_store (data example_env)) ''u'' = Some PNone
   \<and> EnvDict_replace_value example_imported example_store example_env (PInt 2) [''u''] =
       (Inl (KeyError (''Trying to replace key '' @ [CHR 0x22] @ ''u'' @ [CHR 0x22] @
                       '' in env, but it does not exist'')), example_store)"
  by (simp add: EnvDict_replace_value_def replace_error_message_def get_method_def
      example_store_def example_env_def)

text \<open>
  Claim C3. When the first segment of the flattened key is not \<^verbatim>\<open>env\<close>,
  \<^verbatim>\<open>_replace_flatten_key\<close> (and its in-place variant) raises
  \<^verbatim>\<open>ValueError('keys_flatten must start with env__')\<close> and the store is what it was: no
  dictionary has changed. When the first segment is \<^verbatim>\<open>env\<close>, the remaining segments are
  the key path handed to \<^verbatim>\<open>_replace_value\<close>, on the copy in the case of
  \<^verbatim>\<open>_replace_flatten_key\<close>.
\<close>

theorem flattened_key_prefix_check:
  "(hd (split_dunder key_flatten) \<noteq> ''env'' \<longrightarrow>
      EnvDict_replace_flatten_key im s self v key_flatten =
        (Inl (ValueError ''keys_flatten must start with env__''), s)
      \<and> EnvDict_inplace_replace_flatten_key im s self v key_flatten =
        (Inl (ValueError ''keys_flatten must start with env__''), s))
   \<and> (hd (split_dunder key_flatten) = ''env'' \<longrightarrow>
      EnvDict_inplace_replace_flatten_key im s self v key_flatten =
        EnvDict_replace_value im s self v (tl (split_dunder key_flatten))
      \<and> EnvDict_replace_flatten_key im s self v key_flatten =
        (case EnvDict_replace_value im s (copy self) v (tl (split_dunder key_flatten)) of
           (Inl err, s') \<Rightarrow> (Inl err, s')
         | (Inr u, s') \<Rightarrow> (Inr (copy self), s')))"
proof -
  obtain p0 keys_all where parts: "split_dunder key_flatten = p0 # keys_all"
    using split_dunder_nonempty [of key_flatten] by (cases "split_dunder key_flatten") auto
  show ?thesis
    by (simp add: parts EnvDict_replace_flatten_key_def EnvDict_inplace_replace_flatten_key_def
        Let_def)
qed

theorem flattened_key_prefix_check_witness:
  "hd (split_dunder ''environ__a__b'') \<noteq> ''env''
   \<and> EnvDict_replace_flatten_key example_imported example_store example_env (PInt 2) ''environ__a__b'' =
       (Inl (ValueError ''keys_flatten must start with env__''), example_store)
   \<and> hd (split_dunder ''env__a__b'') = ''env''
   \<and> tl (split_dunder ''env__a__b'') = [''a'', ''b'']
   \<and> EnvDict_inplace_replace_flatten_key example_imported example_store example_env (PInt 2) ''env__a__b'' =
       EnvDict_replace_value example_imported example_store example_env (PInt 2) [''a'', ''b'']"
  using flattened_key_prefix_check [of "''environ__a__b''" example_imported example_store example_env "PInt 2"]
        flattened_key_prefix_check [of "''env__a__b''" example_imported example_store example_env "PInt 2"]
  by (simp add: split_dunder_def)

text \<open>
  Claim C10. The flattened key \<^verbatim>\<open>env\<close> alone splits into the single segment \<^verbatim>\<open>env\<close>, so it
  passes the prefix check with an empty key path, and \<^verbatim>\<open>keys_all[-1]\<close> raises
  \<^verbatim>\<open>IndexError\<close>: neither \<^verbatim>\<open>ValueError\<close> nor \<^verbatim>\<open>KeyError\<close>. The store is unchanged.
\<close>

theorem flattened_key_env_alone:
  "split_dunder ''env'' = [''env'']
   \<and> EnvDict_inplace_replace_flatten_key im s self v ''env'' = (Inl IndexError, s)
   \<and> EnvDict_replace_flatten_key im s self v ''env'' = (Inl IndexError, s)"
  by (simp add: split_dunder_def EnvDict_replace_flatten_key_def
      EnvDict_inplace_replace_flatten_key_def EnvDict_replace_value_def)

theorem flattened_key_env_alone_witness:
  "EnvDict_replace_flatten_key example_imported example_store example_env (PInt 2) ''env'' =
     (Inl IndexError, example_store)"
  using flattened_key_env_alone [of example_imported example_store example_env "PInt 2"]
  by simp

section \<open>Lookup and item assignment\<close>

text \<open>
  Claim C7. \<^verbatim>\<open>__getitem__\<close> returns the value of the preprocessed mapping when the key is
  there, otherwise the value of the expanded mapping, each passed through
  \<^verbatim>\<open>FrozenJSON\<close>; it fails exactly when the key is in neither, and the failure is the
  \<^verbatim>\<open>KeyError\<close> whose message starts with \<^verbatim>\<open>EnvDict(...)\<close> around
  \<^verbatim>\<open>repr_dict(self._data, level=2)\<close>, the bounded rendering of \<^verbatim>\<open>reprlib\<close>.
\<close>

theorem getitem_lookup_order:
  "(\<forall>v. map_of (cells s (preprocessed self)) key = Some v \<longrightarrow>
        EnvDict_dunder_getitem im s self key = Inr (FrozenJSON im v))
   \<and> (\<forall>v. map_of (cells s (preprocessed self)) key = None
          \<and> map_of (cells s (data self)) key = Some v \<longrightarrow>
        EnvDict_dunder_getitem im s self key = Inr (FrozenJSON im v))
   \<and> ((\<exists>err. EnvDict_dunder_getitem im s self key = Inl err) \<longleftrightarrow>
        map_of (cells s (preprocessed self)) key = None
        \<and> map_of (cells s (data self)) key = None)
   \<and> (map_of (cells s (preprocessed self)) key = None
        \<and> map_of (cells s (data self)) key = None \<longrightarrow>
        EnvDict_dunder_getitem im s self key =
          Inl (KeyError (''EnvDict('' @ repr_dict im s (data self) 2 @ '')'' @
                         '' object has no key '' @ [CHR 0x27] @ key @ [CHR 0x27])))"
  by (auto simp: EnvDict_dunder_getitem_def EnvDict_getitem_def EnvDict_dunder_repr_def
      subscript_def split: option.splits)

theorem getitem_lookup_order_witness:
  "EnvDict_dunder_getitem example_imported example_store example_env ''_module'' =
     Inr (PPath (Path ''/'' [''proj'']))
   \<and> EnvDict_dunder_getitem example_imported example_store example_env ''a'' = Inr (PRef 2)
   \<and> EnvDict_dunder_getitem example_imported example_store example_env ''zz'' =
     Inl (KeyError (''EnvDict('' @ ''{...}'' @ '')'' @
                    '' object has no key '' @ [CHR 0x27] @ ''zz'' @ [CHR 0x27]))"
  using getitem_lookup_order [of example_store example_env "''_module''" example_imported]
        getitem_lookup_order [of example_store example_env "''a''" example_imported]
        getitem_lookup_order [of example_store example_env "''zz''" example_imported]
  by (simp add: example_store_def example_env_def example_imported_def)




section \<open>Preprocessing\<close>

text \<open>
  Claim C5. When the raw mapping has no \<^verbatim>\<open>_module\<close> key, or a falsy value under it,
  \<^verbatim>\<open>raw_preprocess\<close> returns the empty mapping and makes no query: no filesystem check,
  no module lookup.
\<close>

theorem raw_preprocess_without_module:
  assumes "map_of rw ''_module'' = None \<or> (\<exists>v. map_of rw ''_module'' = Some v \<and> \<not> truthy v)"
  shows "raw_preprocess im rw path_to_raw = (Inr [], [])"
  using assms by (auto simp: raw_preprocess_def)

theorem raw_preprocess_without_module_witness:
  "raw_preprocess example_imported [(''a'', RDict [(''b'', RInt 1)])] None = (Inr [], [])
   \<and> raw_preprocess example_imported [(''_module'', RStr [])] (Some (Path ''/'' [''proj'', ''env.yaml'']))
       = (Inr [], [])"
  using raw_preprocess_without_module [of "[(''a'', RDict [(''b'', RInt 1)])]" example_imported None]
        raw_preprocess_without_module [of "[(''_module'', RStr [])]" example_imported
          "Some (Path ''/'' [''proj'', ''env.yaml''])"]
  by simp



section \<open>Construction\<close>

text \<open>
  Claim C8. The built-in placeholder keys are \<^verbatim>\<open>user\<close> and \<^verbatim>\<open>cwd\<close>, then \<^verbatim>\<open>root\<close> when
  \<^verbatim>\<open>find_root_recursively\<close> finds a root, then \<^verbatim>\<open>here\<close> when \<^verbatim>\<open>path_to_here\<close> is given. In
  the merged mapping a key of the raw source has the source's value and any other key
  the built-in's. Validation is applied to the merged mapping: when it rejects it,
  construction fails with the validator's error and the store is untouched.
\<close>

theorem builtins_merged_before_validation:
  assumes "load_from_source im src = Inr (rw, p)" and "distinct (map fst rw)"
  shows "map fst (EnvDict_default_dict im (path_to_here \<noteq> None)) =
           [''user'', ''cwd''] @ (if find_root_recursively im = None then [] else [''root''])
             @ (if path_to_here = None then [] else [''here''])
       \<and> (\<forall>k. map_of (merged_raw_data im rw path_to_here) k =
               (case map_of rw k of
                  Some v \<Rightarrow> Some v
                | None \<Rightarrow> map_of (EnvDict_default_dict im (path_to_here \<noteq> None)) k))
       \<and> (\<forall>err. raw_data_keys im (merged_raw_data im rw path_to_here) = Some err \<longrightarrow>
               EnvDict_init im s src path_to_here = (Inl err, s))"
proof -
  have keys: "map fst (EnvDict_default_dict im (path_to_here \<noteq> None)) =
           [''user'', ''cwd''] @ (if find_root_recursively im = None then [] else [''root''])
             @ (if path_to_here = None then [] else [''here''])"
    by (simp add: default_dict_keys)
  have merged: "\<forall>k. map_of (merged_raw_data im rw path_to_here) k =
               (case map_of rw k of
                  Some v \<Rightarrow> Some v
                | None \<Rightarrow> map_of (EnvDict_default_dict im (path_to_here \<noteq> None)) k)"
    unfolding merged_raw_data_def using map_of_dict_merge [OF assms(2)] by blast
  have validated: "\<forall>err. raw_data_keys im (merged_raw_data im rw path_to_here) = Some err \<longrightarrow>
               EnvDict_init im s src path_to_here = (Inl err, s)"
    using assms(1) by (simp add: EnvDict_init_def)
  from keys merged validated show ?thesis by blast
qed

theorem builtins_merged_before_validation_witness:
  "map fst (EnvDict_default_dict example_imported (Some (AsStr ''/proj'') \<noteq> None)) =
     [''user'', ''cwd'', ''here'']
   \<and> map_of (merged_raw_data example_imported
               [(''user'', RStr ''me''), (''bad__key'', RInt 1)] (Some (AsStr ''/proj''))) ''user''
       = Some (RStr ''me'')
   \<and> map_of (merged_raw_data example_imported
               [(''user'', RStr ''me''), (''bad__key'', RInt 1)] (Some (AsStr ''/proj''))) ''cwd''
       = Some (RStr ''{{cwd}}'')
   \<and> EnvDict_init example_imported example_store
        (SrcMapping [(''user'', RStr ''me''), (''bad__key'', RInt 1)]) (Some (AsStr ''/proj''))
       = (Inl (ValueError ''Error validating env.''), example_store)"
proof -
  have loaded: "load_from_source example_imported
                  (SrcMapping [(''user'', RStr ''me''), (''bad__key'', RInt 1)]) =
                Inr ([(''user'', RStr ''me''), (''bad__key'', RInt 1)], None)"
    by (simp add: load_from_source_def)
  have keys: "distinct (map fst [(''user'', RStr ''me''), (''bad__key'', RInt (1::int))])"
    by simp
  have rejected: "raw_data_keys example_imported
          (merged_raw_data example_imported [(''user'', RStr ''me''), (''bad__key'', RInt 1)]
             (Some (AsStr ''/proj''))) = Some (ValueError ''Error validating env.'')"
    by (simp add: example_imported_def merged_raw_data_def dict_merge_def
        EnvDict_default_dict_def)
  show ?thesis
    using builtins_merged_before_validation
            [OF loaded keys, of "Some (AsStr ''/proj'')" example_store] rejected
    by (simp add: EnvDict_default_dict_def example_imported_def)
qed

text \<open>
  Claim C4, as stated: the mapping \<^verbatim>\<open>{"a": {"b": 1}, "_module": "{{here}}"}\<close> passed in
  memory with the base directory \<^verbatim>\<open>/proj\<close> is constructed with \<^verbatim>\<open>_module\<close> resolved to
  \<^verbatim>\<open>/proj\<close>. It is not: \<^verbatim>\<open>raw_preprocess\<close> is given \<^verbatim>\<open>_path_to_env\<close>, which is \<^verbatim>\<open>None\<close> for a
  mapping, and never \<^verbatim>\<open>path_to_here\<close>.
\<close>

theorem module_here_in_memory_fails:
  "fst (EnvDict_init example_imported example_store (SrcMapping scenario_source)
          (Some (AsStr ''/proj''))) =
     Inl (ValueError ''_module cannot be {{here}} if not loaded from a file'')"
  by (simp add: EnvDict_init_def load_from_source_def merged_raw_data_def dict_merge_def
      EnvDict_default_dict_def raw_preprocess_def scenario_source_def example_imported_def)

text \<open>
  Claim C4, amended. Let the raw mapping bind \<^verbatim>\<open>_module\<close> to \<^verbatim>\<open>{{here}}\<close> and pass
  validation. Then \<^verbatim>\<open>raw_preprocess\<close> resolves \<^verbatim>\<open>_module\<close> to the parent of the path the
  mapping was loaded from, and fails with \<^verbatim>\<open>ValueError('_module cannot be {{here}} if
  not loaded from a file')\<close> exactly when there is no such path. Passed in memory, the
  mapping makes construction fail with that error whatever \<^verbatim>\<open>path_to_here\<close> is. Loaded
  from the file at \<open>p\<close>, with an expander that returns a mapping in which \<^verbatim>\<open>a\<close> is
  \<^verbatim>\<open>{"b": 1}\<close>, construction succeeds, \<^verbatim>\<open>['_module']\<close> is the parent of \<open>p\<close>, and \<^verbatim>\<open>['a']\<close>
  is \<^verbatim>\<open>FrozenJSON\<close> of a dictionary whose content is \<^verbatim>\<open>{"b": 1}\<close>.
\<close>

theorem module_here_resolves_to_source_parent:
  assumes "distinct (map fst rw)"
      and "map_of rw ''_module'' = Some (RStr ''{{here}}'')"
      and "raw_data_keys im (merged_raw_data im rw path_to_here) = None"
  shows "fst (raw_preprocess im rw path_to_raw) =
           (case path_to_raw of
              Some p \<Rightarrow> Inr [(''_module'', RPath (parent p))]
            | None \<Rightarrow> Inl (ValueError ''_module cannot be {{here}} if not loaded from a file''))
       \<and> EnvDict_init im s (SrcMapping rw) path_to_here =
           (Inl (ValueError ''_module cannot be {{here}} if not loaded from a file''), s)
       \<and> (\<forall>f p expanded.
             load_from_source im (SrcFile f) = Inr (rw, Some p)
             \<and> expand_raw_dictionary im
                 (EnvironmentExpander im [(''_module'', RPath (parent p))]
                    (case path_to_here of
                       None \<Rightarrow> Some (parent p)
                     | Some h \<Rightarrow> Some (Path_resolve im (Path_from h))))
                 (merged_raw_data im rw path_to_here) = Inr expanded
             \<and> map_of expanded ''a'' = Some (RDict [(''b'', RInt 1)]) \<longrightarrow>
             (\<exists>self s' a.
                 EnvDict_init im s (SrcFile f) path_to_here = (Inr self, s')
                 \<and> EnvDict_dunder_getitem im s' self ''_module'' =
                     Inr (FrozenJSON im (PPath (parent p)))
                 \<and> EnvDict_dunder_getitem im s' self ''a'' = Inr (FrozenJSON im (PRef a))
                 \<and> cells s' a = [(''b'', PInt 1)]))"
proof -
  have merged: "map_of (merged_raw_data im rw path_to_here) ''_module'' =
                  Some (RStr ''{{here}}'')"
    unfolding merged_raw_data_def using map_of_dict_merge [OF assms(1)] assms(2) by simp
  have resolve: "fst (raw_preprocess im rw path_to_raw) =
           (case path_to_raw of
              Some p \<Rightarrow> Inr [(''_module'', RPath (parent p))]
            | None \<Rightarrow> Inl (ValueError ''_module cannot be {{here}} if not loaded from a file''))"
    using assms(2) by (rule raw_preprocess_here)
  have in_memory: "EnvDict_init im s (SrcMapping rw) path_to_here =
           (Inl (ValueError ''_module cannot be {{here}} if not loaded from a file''), s)"
    using assms(3) raw_preprocess_here [OF merged, of im None]
    by (simp add: EnvDict_init_def load_from_source_def)
  have from_file: "\<exists>self s' a.
                 EnvDict_init im s (SrcFile f) path_to_here = (Inr self, s')
                 \<and> EnvDict_dunder_getitem im s' self ''_module'' =
                     Inr (FrozenJSON im (PPath (parent p)))
                 \<and> EnvDict_dunder_getitem im s' self ''a'' = Inr (FrozenJSON im (PRef a))
                 \<and> cells s' a = [(''b'', PInt 1)]"
    if "load_from_source im (SrcFile f) = Inr (rw, Some p)"
      and "expand_raw_dictionary im
                 (EnvironmentExpander im [(''_module'', RPath (parent p))]
                    (case path_to_here of
                       None \<Rightarrow> Some (parent p)
                     | Some h \<Rightarrow> Some (Path_resolve im (Path_from h))))
                 (merged_raw_data im rw path_to_here) = Inr expanded"
      and "map_of expanded ''a'' = Some (RDict [(''b'', RInt 1)])"
    for f p expanded
    using init_from_file [OF that(1) assms(3) _ that(2) that(3)]
          raw_preprocess_here [OF merged, of im "Some p"]
    by simp
  from resolve in_memory from_file show ?thesis by blast
qed

theorem module_here_resolves_to_source_parent_witness:
  "fst (raw_preprocess example_imported scenario_source
          (Some (Path ''/'' [''proj'', ''env.yaml''])))
     = Inr [(''_module'', RPath (Path ''/'' [''proj'']))]
   \<and> EnvDict_init example_imported example_store (SrcMapping scenario_source)
         (Some (AsStr ''/proj''))
     = (Inl (ValueError ''_module cannot be {{here}} if not loaded from a file''),
        example_store)
   \<and> (\<exists>self s' a.
         EnvDict_init example_imported example_store (SrcFile (AsStr ''/proj/env.yaml'')) None
           = (Inr self, s')
         \<and> EnvDict_dunder_getitem example_imported s' self ''_module''
             = Inr (PPath (Path ''/'' [''proj'']))
         \<and> EnvDict_dunder_getitem example_imported s' self ''a'' = Inr (PRef a)
         \<and> cells s' a = [(''b'', PInt 1)])"
proof -
  have keys: "distinct (map fst scenario_source)"
    by (simp add: scenario_source_def)
  have here: "map_of scenario_source ''_module'' = Some (RStr ''{{here}}'')"
    by (simp add: scenario_source_def)
  have valid: "raw_data_keys example_imported
                 (merged_raw_data example_imported scenario_source pth) = None" for pth
    by (cases pth)
       (simp_all add: example_imported_def merged_raw_data_def dict_merge_def
          EnvDict_default_dict_def scenario_source_def)
  have loaded: "load_from_source example_imported (SrcFile (AsStr ''/proj/env.yaml'')) =
                  Inr (scenario_source, Some (Path ''/'' [''proj'', ''env.yaml'']))"
    by (simp add: load_from_source_def load_file_def example_imported_def Path_of_def)
  have expd: "expand_raw_dictionary example_imported x rw = Inr rw" for x rw
    by (simp add: example_imported_def)
  have sub: "map_of (merged_raw_data example_imported scenario_source None) ''a'' =
               Some (RDict [(''b'', RInt 1)])"
    by (simp add: merged_raw_data_def dict_merge_def EnvDict_default_dict_def
        scenario_source_def example_imported_def)
  have wrap: "FrozenJSON example_imported v = v" for v
    by (simp add: example_imported_def)
  note in_memory =
    module_here_resolves_to_source_parent
      [OF keys here valid, where path_to_here = "Some (AsStr ''/proj'')"
         and path_to_raw = "Some (Path ''/'' [''proj'', ''env.yaml''])" and s = example_store]
  note from_file =
    module_here_resolves_to_source_parent
      [OF keys here valid, where path_to_here = None
         and path_to_raw = "Some (Path ''/'' [''proj'', ''env.yaml''])" and s = example_store,
       THEN conjunct2, THEN conjunct2,
       THEN spec [where x = "AsStr ''/proj/env.yaml''"],
       THEN spec [where x = "Path ''/'' [''proj'', ''env.yaml'']"],
       THEN spec [where x = "merged_raw_data example_imported scenario_source None"],
       THEN mp]
  have built: "\<exists>self s' a.
         EnvDict_init example_imported example_store (SrcFile (AsStr ''/proj/env.yaml'')) None
           = (Inr self, s')
         \<and> EnvDict_dunder_getitem example_imported s' self ''_module''
             = Inr (PPath (Path ''/'' [''proj'']))
         \<and> EnvDict_dunder_getitem example_imported s' self ''a'' = Inr (PRef a)
         \<and> cells s' a = [(''b'', PInt 1)]"
    using from_file loaded expd sub by (simp add: wrap)
  from in_memory built show ?thesis by simp
qed

end
